theory Spec2Isabelle
  imports Main
begin

section \<open>The data model of gocollectanalytics\<close>

text \<open>
  \<^verbatim>\<open>url.Values\<close> is Go's \<^verbatim>\<open>map[string][]string\<close>: every key carries a list of
  values, in the order in which they occurred in the query string.
\<close>

type_synonym Values = "string \<rightharpoonup> string list"

text \<open>
  \<^verbatim>\<open>Values.Get\<close> of the standard library: the first value of the key, and the empty
  string when the key is absent or its list is empty. The index \<^verbatim>\<open>vs[0]\<close> is guarded by
  the length test, so the function has no failing branch.
\<close>

definition Get :: "Values \<Rightarrow> string \<Rightarrow> string" where
  "Get v key =
     (case v key of
        None \<Rightarrow> []
      | Some vs \<Rightarrow> (if length vs = 0 then [] else vs ! 0))"

text \<open>
  An \<^verbatim>\<open>error\<close> made by \<^verbatim>\<open>errors.New\<close> is a value that holds its message; the method
  \<^verbatim>\<open>Error()\<close> gives the message back.
\<close>

datatype error = errorString string

fun errors_New :: "string \<Rightarrow> error" where
  "errors_New s = errorString s"

fun Error :: "error \<Rightarrow> string" where
  "Error (errorString s) = s"

type_synonym multipleErrors = "error list"

text \<open>
  The struct \<^verbatim>\<open>Event\<close>. The field \<^verbatim>\<open>Value\<close> is a Go \<^verbatim>\<open>int\<close>; the program only ever
  stores its zero value there and computes nothing with it.
\<close>

record Event =
  Site :: string
  ClientID :: string
  Category :: string
  Action :: string
  Label :: string
  Value :: int

section \<open>Event construction and validation\<close>

text \<open>
  \<^verbatim>\<open>createEvent\<close> is a struct literal with four fields given; Go fills the fields left
  out (\<^verbatim>\<open>ClientID\<close>, \<^verbatim>\<open>Value\<close>) with the zero value of their type.
\<close>

definition createEvent :: "Values \<Rightarrow> Event" where
  "createEvent data =
     \<lparr>Site = Get data ''tid'', ClientID = [], Category = Get data ''ec'',
      Action = Get data ''ea'', Label = Get data ''el'', Value = 0\<rparr>"

text \<open>
  \<^verbatim>\<open>validateParameters\<close>: five tests in sequence, each appending to \<^verbatim>\<open>errs\<close>; the
  result is \<^verbatim>\<open>(false, errs)\<close> when anything was appended and \<^verbatim>\<open>(true, nil)\<close> otherwise
  (the nil slice is the empty list).
\<close>

definition validateParameters :: "Values \<Rightarrow> bool \<times> multipleErrors" where
  "validateParameters vals =
     (let errs = [];
          errs = (if Get vals ''v'' \<noteq> ''1''
                  then errs @ [errors_New ''Version v must equal 1''] else errs);
          errs = (if Get vals ''tid'' = ''''
                  then errs @ [errors_New ''Site id tid must be supplied''] else errs);
          errs = (if Get vals ''t'' \<noteq> ''event''
                  then errs @ [errors_New
                    ''Hit type 't' must be set, only type 'event' is currently supported'']
                  else errs);
          errs = (if Get vals ''t'' = ''event'' \<and> Get vals ''ec'' = ''''
                  then errs @ [errors_New ''Events must have a category''] else errs);
          errs = (if Get vals ''t'' = ''event'' \<and> Get vals ''ea'' = ''''
                  then errs @ [errors_New ''Events must have an action''] else errs)
      in if length errs > 0 then (False, errs) else (True, []))"

text \<open>
  \<^verbatim>\<open>multipleErrors.Error\<close>: a list of length one gives the message of its element;
  any other list gives the header followed, for each element in order, by a newline and
  the element's message. The loop is a left fold over the slice.
\<close>

definition multipleErrors_Error :: "multipleErrors \<Rightarrow> string" where
  "multipleErrors_Error e =
     (if length e = 1 then Error (e ! 0)
      else foldl (\<lambda>msg err. msg @ [CHR 0x0A] @ Error err) ''multiple errors:'' e)"

section \<open>The rules as the specification lists them\<close>

text \<open>
  The five rules of the specification, each a condition on the parameter set paired with
  the message reported when the condition fails, in the order the specification gives.
\<close>

definition spec_rules :: "((Values \<Rightarrow> bool) \<times> string) list" where
  "spec_rules =
     [(\<lambda>p. Get p ''v'' = ''1'', ''Version v must equal 1''),
      (\<lambda>p. Get p ''tid'' \<noteq> '''', ''Site id tid must be supplied''),
      (\<lambda>p. Get p ''t'' = ''event'',
         ''Hit type 't' must be set, only type 'event' is currently supported''),
      (\<lambda>p. Get p ''t'' = ''event'' \<longrightarrow> Get p ''ec'' \<noteq> '''', ''Events must have a category''),
      (\<lambda>p. Get p ''t'' = ''event'' \<longrightarrow> Get p ''ea'' \<noteq> '''', ''Events must have an action'')]"

definition spec_violated :: "Values \<Rightarrow> string list" where
  "spec_violated p = map snd (filter (\<lambda>r. \<not> fst r p) spec_rules)"

text \<open>The parameter set of the first end-to-end scenario of the specification.\<close>

definition scenario1 :: Values where
  "scenario1 = map_of [(''v'', [''1'']), (''tid'', [''site1'']), (''t'', [''event'']),
                       (''ec'', [''nav'']), (''ea'', [''click''])]"

text \<open>
  The parameter sets of the second and third scenario: the second lacks the key
  \<^verbatim>\<open>ec\<close>; in the third the key \<^verbatim>\<open>tid\<close> is present with an empty value.
\<close>

definition scenario2 :: Values where
  "scenario2 = map_of [(''v'', [''1'']), (''tid'', [''site1'']), (''t'', [''event'']),
                       (''ea'', [''click''])]"

definition scenario3 :: Values where
  "scenario3 = map_of [(''v'', [''2'']), (''tid'', ['''']), (''t'', [''pageview''])]"

text \<open>A parameter set of an event hit that carries nothing else.\<close>

definition bare_event :: Values where
  "bare_event = map_of [(''t'', [''event''])]"

text \<open>
  A query string with repeated keys and with keys the program does not read, as
  \<^verbatim>\<open>v=1&v=2&tid=site1&tid=other&t=event&ec=nav&ea=click&ea=hover&el=top&el=low&cid=c7&x=y\<close>
  parses.
\<close>

definition repeated_keys :: Values where
  "repeated_keys =
     map_of [(''v'', [''1'', ''2'']), (''tid'', [''site1'', ''other'']), (''t'', [''event'']),
             (''ec'', [''nav'']), (''ea'', [''click'', ''hover'']), (''el'', [''top'', ''low'']),
             (''cid'', [''c7'']), (''x'', [''y''])]"

text \<open>The first scenario with further keys, among them keys the program never reads.\<close>

definition scenario1_extra :: Values where
  "scenario1_extra =
     map_of [(''v'', [''1'']), (''tid'', [''site1'']), (''t'', [''event'']), (''ec'', [''nav'']),
             (''ea'', [''click'']), (''el'', [''top'']), (''cid'', [''c7'']), (''x'', [''y''])]"

text \<open>
  Keeping, for every key, only the first of its values: a list with a first element
  becomes the singleton of that element (an empty list has none and stays empty).
\<close>

definition first_values :: "Values \<Rightarrow> Values" where
  "first_values vals = (\<lambda>k. case vals k of None \<Rightarrow> None | Some vs \<Rightarrow> Some (take 1 vs))"

text \<open>The lines of a text: the pieces between its newline characters.\<close>

fun lines_of :: "string \<Rightarrow> string list" where
  "lines_of [] = [[]]"
| "lines_of (c # cs) =
     (if c = CHR 0x0A then [] # lines_of cs
      else (case lines_of cs of [] \<Rightarrow> [[c]] | l # ls \<Rightarrow> (c # l) # ls))"

section \<open>The collector and its handler\<close>

text \<open>
  A \<^verbatim>\<open>Datastore\<close> is an interface value: some state of the implementation's own and the
  method \<^verbatim>\<open>LogIt\<close>, which may change that state and returns an error or nil
  (\<open>None\<close>).
\<close>

record 's Datastore =
  ds_state :: 's
  ds_LogIt :: "'s \<Rightarrow> Event \<Rightarrow> 's \<times> error option"

definition LogIt :: "'s Datastore \<Rightarrow> Event \<Rightarrow> 's Datastore \<times> error option" where
  "LogIt ds e = (let (s', err) = ds_LogIt ds (ds_state ds) e in (ds\<lparr>ds_state := s'\<rparr>, err))"

record 's Collector =
  store :: "'s Datastore"

definition NewCollector :: "'s Datastore \<Rightarrow> 's Collector" where
  "NewCollector ds = \<lparr>store = ds\<rparr>"

text \<open>
  The method \<^verbatim>\<open>record\<close> of the collector: it calls \<^verbatim>\<open>LogIt\<close> and turns the outcome
  into a string.
\<close>

definition Collector_record :: "'s Collector \<Rightarrow> Event \<Rightarrow> 's Collector \<times> string" where
  "Collector_record coll datatype =
     (let (ds', err) = LogIt (store coll) datatype
      in (coll\<lparr>store := ds'\<rparr>, if err \<noteq> None then ''boo!'' else ''ok''))"

text \<open>
  What a request can observe or change: the response writer (the status, once the header
  is written, and the body), the output of the logger, the goroutines started and not
  yet run (each is a call of \<^verbatim>\<open>coll.record\<close>, kept by its argument), and the collector
  with its store.
\<close>

record ResponseWriter =
  status :: "nat option"
  body :: string

record 's world =
  writer :: ResponseWriter
  log_output :: "string list"
  goroutines :: "Event list"
  collector :: "'s Collector"

definition StatusOK :: nat where
  "StatusOK = 200"

definition StatusBadRequest :: nat where
  "StatusBadRequest = 400"

text \<open>\<^verbatim>\<open>WriteHeader\<close> sets the status; once a header is written a second call changes nothing.\<close>

definition WriteHeader :: "nat \<Rightarrow> ResponseWriter \<Rightarrow> ResponseWriter" where
  "WriteHeader code rw = (if status rw = None then rw\<lparr>status := Some code\<rparr> else rw)"

text \<open>\<^verbatim>\<open>log.Print(err)\<close> formats an error by its method \<^verbatim>\<open>Error()\<close> and emits one entry.\<close>

definition log_Print :: "multipleErrors \<Rightarrow> 's world \<Rightarrow> 's world" where
  "log_Print err wd = wd\<lparr>log_output := log_output wd @ [multipleErrors_Error err]\<rparr>"

text \<open>
  The handler, on the parameters \<^verbatim>\<open>r.URL.Query()\<close> of the request. The statement
  \<^verbatim>\<open>go coll.record(e)\<close> only starts a goroutine; the handler goes on without it.
\<close>

definition CollectData :: "Values \<Rightarrow> 's world \<Rightarrow> 's world" where
  "CollectData params wd =
     (let (dataValid, err) = validateParameters params
      in if dataValid \<noteq> True
         then (let wd = log_Print err wd
               in wd\<lparr>writer := WriteHeader StatusBadRequest (writer wd)\<rparr>)
         else (let e = createEvent params;
                   wd = wd\<lparr>goroutines := goroutines wd @ [e]\<rparr>
               in wd\<lparr>writer := WriteHeader StatusOK (writer wd)\<rparr>))"

text \<open>
  Running the \<open>i\<close>-th started goroutine to its end: \<^verbatim>\<open>record\<close> is called on the
  collector, and the string it returns is dropped, as the \<^verbatim>\<open>go\<close> statement does with the
  result of the call. A schedule is the order in which the scheduler picks goroutines.
\<close>

definition run_goroutine :: "nat \<Rightarrow> 's world \<Rightarrow> 's world" where
  "run_goroutine i wd =
     (if i < length (goroutines wd)
      then (let (coll', r) = Collector_record (collector wd) (goroutines wd ! i)
            in wd\<lparr>goroutines := take i (goroutines wd) @ drop (Suc i) (goroutines wd),
                  collector := coll'\<rparr>)
      else wd)"

fun run_schedule :: "nat list \<Rightarrow> 's world \<Rightarrow> 's world" where
  "run_schedule [] wd = wd"
| "run_schedule (i # sch) wd = run_schedule sch (run_goroutine i wd)"

text \<open>The state in which the server calls the handler: nothing written, logged or started.\<close>

definition new_request :: "'s Collector \<Rightarrow> 's world" where
  "new_request coll =
     \<lparr>writer = \<lparr>status = None, body = []\<rparr>, log_output = [], goroutines = [],
      collector = coll\<rparr>"

text \<open>
  Two stores for running the handler: one keeps every event it is given and returns nil,
  the other keeps nothing and returns an error on every call.
\<close>

definition keeping_store :: "Event list Datastore" where
  "keeping_store = \<lparr>ds_state = [], ds_LogIt = (\<lambda>s e. (s @ [e], None))\<rparr>"

definition failing_store :: "Event list Datastore" where
  "failing_store = \<lparr>ds_state = [], ds_LogIt = (\<lambda>s e. (s, Some (errors_New ''store is down'')))\<rparr>"

section \<open>Runs of the two functions, with panics and the heap\<close>

text \<open>
  A run of Go code can end in a panic, and what it returns can depend on the state in
  which it starts: \<^verbatim>\<open>errors.New\<close> returns a pointer to an object it allocates, so the
  pointers a run returns depend on what the heap held before. This section embeds
  \<^verbatim>\<open>validateParameters\<close> and \<^verbatim>\<open>createEvent\<close> a second time, statement by statement, with
  both made explicit: a run takes the heap and gives either a panic or a value and the
  heap after it.
\<close>

datatype panic = IndexOutOfRange

text \<open>The heap of error objects: the message stored at every address, and the next free address.\<close>

record heap =
  next_addr :: nat
  objects :: "nat \<Rightarrow> string"

type_synonym 'a run = "heap \<Rightarrow> panic + 'a \<times> heap"

definition unit_run :: "'a \<Rightarrow> 'a run" where
  "unit_run x h = Inr (x, h)"

definition panic_run :: "panic \<Rightarrow> 'a run" where
  "panic_run p h = Inl p"

text \<open>One statement after another: a panic of the first ends the run.\<close>

definition bind_run :: "'a run \<Rightarrow> ('a \<Rightarrow> 'b run) \<Rightarrow> 'b run" where
  "bind_run m f h = (case m h of Inl p \<Rightarrow> Inl p | Inr (x, h') \<Rightarrow> f x h')"

text \<open>The operator \<^verbatim>\<open>&&\<close>: the right operand is evaluated only when the left one is true.\<close>

definition and_run :: "bool run \<Rightarrow> bool run \<Rightarrow> bool run" where
  "and_run a b = bind_run a (\<lambda>x. if x then b else unit_run False)"

text \<open>The index expression \<^verbatim>\<open>xs[i]\<close>: out of range it panics.\<close>

definition index_run :: "'a list \<Rightarrow> nat \<Rightarrow> 'a run" where
  "index_run xs i = (if i < length xs then unit_run (xs ! i) else panic_run IndexOutOfRange)"

text \<open>
  \<^verbatim>\<open>Values.Get\<close>: the map read \<^verbatim>\<open>v[key]\<close> gives the nil slice for a key that is absent,
  then the length test, then the index.
\<close>

definition Get_run :: "Values \<Rightarrow> string \<Rightarrow> string run" where
  "Get_run v key =
     (let vs = (case v key of None \<Rightarrow> [] | Some vs \<Rightarrow> vs)
      in if length vs = 0 then unit_run [] else index_run vs 0)"

text \<open>\<^verbatim>\<open>errors.New\<close> stores the message at the next free address and returns that address.\<close>

definition errors_New_run :: "string \<Rightarrow> nat run" where
  "errors_New_run s h =
     Inr (next_addr h,
          h\<lparr>next_addr := Suc (next_addr h), objects := (objects h)(next_addr h := s)\<rparr>)"

text \<open>The statement \<^verbatim>\<open>errs = append(errs, errors.New(msg))\<close>.\<close>

definition append_error :: "nat list \<Rightarrow> string \<Rightarrow> nat list run" where
  "append_error errs msg = bind_run (errors_New_run msg) (\<lambda>e. unit_run (errs @ [e]))"

definition validateParameters_run :: "Values \<Rightarrow> (bool \<times> nat list) run" where
  "validateParameters_run vals =
     bind_run (Get_run vals ''v'') (\<lambda>v.
     bind_run (if v \<noteq> ''1'' then append_error [] ''Version v must equal 1''
               else unit_run []) (\<lambda>errs.
     bind_run (Get_run vals ''tid'') (\<lambda>tid.
     bind_run (if tid = '''' then append_error errs ''Site id tid must be supplied''
               else unit_run errs) (\<lambda>errs.
     bind_run (Get_run vals ''t'') (\<lambda>t.
     bind_run (if t \<noteq> ''event''
               then append_error errs
                 ''Hit type 't' must be set, only type 'event' is currently supported''
               else unit_run errs) (\<lambda>errs.
     bind_run (and_run (bind_run (Get_run vals ''t'') (\<lambda>t. unit_run (t = ''event'')))
                       (bind_run (Get_run vals ''ec'') (\<lambda>ec. unit_run (ec = '''')))) (\<lambda>c.
     bind_run (if c then append_error errs ''Events must have a category''
               else unit_run errs) (\<lambda>errs.
     bind_run (and_run (bind_run (Get_run vals ''t'') (\<lambda>t. unit_run (t = ''event'')))
                       (bind_run (Get_run vals ''ea'') (\<lambda>ea. unit_run (ea = '''')))) (\<lambda>c.
     bind_run (if c then append_error errs ''Events must have an action''
               else unit_run errs) (\<lambda>errs.
     if length errs > 0 then unit_run (False, errs) else unit_run (True, [])))))))))))"

definition createEvent_run :: "Values \<Rightarrow> Event run" where
  "createEvent_run data =
     bind_run (Get_run data ''tid'') (\<lambda>tid.
     bind_run (Get_run data ''ec'') (\<lambda>ec.
     bind_run (Get_run data ''ea'') (\<lambda>ea.
     bind_run (Get_run data ''el'') (\<lambda>el.
     unit_run \<lparr>Site = tid, ClientID = [], Category = ec, Action = ea, Label = el,
               Value = 0\<rparr>))))"

text \<open>
  What a caller sees of a run: of \<^verbatim>\<open>validateParameters\<close> the flag and what \<^verbatim>\<open>Error()\<close>
  gives on each error returned, read in the heap the run leaves; of \<^verbatim>\<open>createEvent\<close> the
  event, a struct of values.
\<close>

definition ValidationResult_of :: "panic + (bool \<times> nat list) \<times> heap \<Rightarrow> panic + bool \<times> string list" where
  "ValidationResult_of r =
     (case r of Inl p \<Rightarrow> Inl p | Inr ((ok, errs), h) \<Rightarrow> Inr (ok, map (objects h) errs))"

definition Event_of :: "panic + Event \<times> heap \<Rightarrow> panic + Event" where
  "Event_of r = (case r of Inl p \<Rightarrow> Inl p | Inr (e, h) \<Rightarrow> Inr e)"

text \<open>
  A parameter set in which keys carry an empty list of values (no query string parses to
  it, a caller building the map by hand can pass it).
\<close>

definition empty_lists :: Values where
  "empty_lists = map_of [(''v'', []), (''t'', [''event'']), (''ec'', []), (''el'', [])]"

text \<open>Two heaps to start a run in: nothing allocated yet, and seven objects allocated before.\<close>

definition empty_heap :: heap where
  "empty_heap = \<lparr>next_addr = 0, objects = (\<lambda>a. [])\<rparr>"

definition used_heap :: heap where
  "used_heap = \<lparr>next_addr = 7, objects = (\<lambda>a. ''earlier error'')\<rparr>"

section \<open>Reading parameters\<close>

lemma Get_cong: "vals k = vals' k \<Longrightarrow> Get vals k = Get vals' k"
  by (simp add: Get_def)

lemma Get_first_values: "Get (first_values vals) k = Get vals k"
proof (cases "vals k")
  case None
  then show ?thesis by (simp add: Get_def first_values_def)
next
  case (Some vs)
  then show ?thesis by (cases vs) (simp_all add: Get_def first_values_def)
qed

lemma Get_update_absent: "Get (vals(k := None)) k' = Get (vals(k \<mapsto> [''''])) k'"
  by (simp add: Get_def)

lemma Get_update_no_values: "Get (vals(k := None)) k' = Get (vals(k \<mapsto> [])) k'"
  by (simp add: Get_def)

text \<open>
  The five tests of \<^verbatim>\<open>validateParameters\<close> append independently of each other, so the
  list is the concatenation of five lists, each empty or a singleton.
\<close>

lemma validateParameters_unfold:
  "validateParameters vals =
     (let errs =
        (if Get vals ''v'' \<noteq> ''1'' then [errorString ''Version v must equal 1''] else []) @
        (if Get vals ''tid'' = '''' then [errorString ''Site id tid must be supplied''] else []) @
        (if Get vals ''t'' \<noteq> ''event''
         then [errorString ''Hit type 't' must be set, only type 'event' is currently supported'']
         else []) @
        (if Get vals ''t'' = ''event'' \<and> Get vals ''ec'' = ''''
         then [errorString ''Events must have a category''] else []) @
        (if Get vals ''t'' = ''event'' \<and> Get vals ''ea'' = ''''
         then [errorString ''Events must have an action''] else [])
      in (errs = [], errs))"
  by (simp add: validateParameters_def Let_def)

text \<open>Both functions see a parameter set only through \<^verbatim>\<open>Get\<close> on the keys they name.\<close>

lemma validateParameters_Get_cong:
  assumes "Get vals ''v'' = Get vals' ''v''" and "Get vals ''tid'' = Get vals' ''tid''"
    and "Get vals ''t'' = Get vals' ''t''" and "Get vals ''ec'' = Get vals' ''ec''"
    and "Get vals ''ea'' = Get vals' ''ea''"
  shows "validateParameters vals = validateParameters vals'"
  unfolding validateParameters_unfold using assms by simp

lemma createEvent_Get_cong:
  assumes "Get data ''tid'' = Get data' ''tid''" and "Get data ''ec'' = Get data' ''ec''"
    and "Get data ''ea'' = Get data' ''ea''" and "Get data ''el'' = Get data' ''el''"
  shows "createEvent data = createEvent data'"
  unfolding createEvent_def using assms by simp

lemma validateParameters_no_newline:
  "\<forall>e \<in> set (snd (validateParameters vals)). CHR 0x0A \<notin> set (Error e)"
  by (auto simp: validateParameters_unfold Let_def)

section \<open>Rendering and lines\<close>

lemma foldl_messages:
  "foldl (\<lambda>msg err. msg @ CHR 0x0A # Error err) s e =
     s @ concat (map (\<lambda>err. CHR 0x0A # Error err) e)"
  by (induction e arbitrary: s) simp_all

lemma lines_of_one: "CHR 0x0A \<notin> set s \<Longrightarrow> lines_of s = [s]"
  by (induction s) auto

lemma lines_of_append: "CHR 0x0A \<notin> set s \<Longrightarrow> lines_of (s @ CHR 0x0A # t) = s # lines_of t"
  by (induction s) auto

lemma lines_of_messages:
  "CHR 0x0A \<notin> set s \<Longrightarrow> \<forall>x \<in> set xs. CHR 0x0A \<notin> set x \<Longrightarrow>
   lines_of (s @ concat (map (\<lambda>x. CHR 0x0A # x) xs)) = s # xs"
proof (induction xs arbitrary: s)
  case Nil
  then show ?case by (simp add: lines_of_one)
next
  case (Cons x xs)
  have "lines_of (s @ CHR 0x0A # (x @ concat (map (\<lambda>x. CHR 0x0A # x) xs))) =
          s # lines_of (x @ concat (map (\<lambda>x. CHR 0x0A # x) xs))"
    using Cons.prems(1) by (rule lines_of_append)
  moreover have "lines_of (x @ concat (map (\<lambda>x. CHR 0x0A # x) xs)) = x # xs"
    using Cons.prems(2) by (intro Cons.IH) simp_all
  ultimately show ?case by simp
qed

section \<open>The handler and its goroutines\<close>

text \<open>A goroutine touches the collector only: never the response writer, never the log.\<close>

lemma run_goroutine_keeps:
  "writer (run_goroutine i wd) = writer wd \<and> log_output (run_goroutine i wd) = log_output wd"
  by (simp add: run_goroutine_def Let_def split: prod.splits)

lemma run_schedule_keeps:
  "writer (run_schedule sch wd) = writer wd \<and> log_output (run_schedule sch wd) = log_output wd"
  by (induction sch arbitrary: wd) (simp_all add: run_goroutine_keeps)

lemma run_schedule_idle: "goroutines wd = [] \<Longrightarrow> run_schedule sch wd = wd"
  by (induction sch) (simp_all add: run_goroutine_def)

lemma CollectData_invalid_eq:
  "\<not> fst (validateParameters params) \<Longrightarrow>
   CollectData params wd =
     wd\<lparr>log_output := log_output wd @ [multipleErrors_Error (snd (validateParameters params))],
        writer := WriteHeader 400 (writer wd)\<rparr>"
  by (cases "validateParameters params")
     (simp add: CollectData_def log_Print_def StatusBadRequest_def)

lemma CollectData_valid_eq:
  "fst (validateParameters params) \<Longrightarrow>
   CollectData params wd =
     wd\<lparr>goroutines := goroutines wd @ [createEvent params],
        writer := WriteHeader 200 (writer wd)\<rparr>"
  by (cases "validateParameters params")
     (simp add: CollectData_def StatusOK_def)

section \<open>Runs against the functions\<close>

text \<open>The guard in \<^verbatim>\<open>Get\<close> keeps its index in range: a run of it never panics.\<close>

lemma Get_run_eq: "Get_run vals k h = Inr (Get vals k, h)"
  by (cases "vals k") (simp_all add: Get_run_def Get_def index_run_def unit_run_def)

lemma Get_run_unit: "Get_run vals k = unit_run (Get vals k)"
  by (rule ext) (simp add: Get_run_eq unit_run_def)

lemma bind_unit_run: "bind_run (unit_run x) f = f x"
  by (rule ext) (simp add: bind_run_def unit_run_def)

lemma append_error_eq:
  "append_error errs msg h =
     Inr (errs @ [next_addr h],
          h\<lparr>next_addr := Suc (next_addr h), objects := (objects h)(next_addr h := msg)\<rparr>)"
  by (simp add: append_error_def bind_run_def errors_New_run_def unit_run_def)

lemma createEvent_run_eq: "createEvent_run data h = Inr (createEvent data, h)"
  by (simp add: createEvent_run_def Get_run_unit bind_unit_run createEvent_def unit_run_def)

lemma validateParameters_run_observed:
  "ValidationResult_of (validateParameters_run vals h) =
     Inr (fst (validateParameters vals), map Error (snd (validateParameters vals)))"
  by (simp add: validateParameters_run_def Get_run_unit bind_unit_run and_run_def
      validateParameters_unfold Let_def ValidationResult_of_def bind_run_def append_error_eq
      unit_run_def)

section \<open>The claims\<close>

text \<open>
  Claim C1. For every parameter set, \<^verbatim>\<open>validateParameters\<close> answers valid exactly when
  none of the five rules of the specification is violated, and the list it returns is
  exactly the messages of the violated rules, in the order of the rules and with no
  other entry (so it is empty when the answer is valid).
\<close>

theorem validateParameters_rules:
  "validateParameters vals =
     (spec_violated vals = [], map errors_New (spec_violated vals))"
  by (simp add: validateParameters_unfold spec_violated_def spec_rules_def Let_def)

theorem validateParameters_rules_witness:
  "spec_violated bare_event =
     [''Version v must equal 1'', ''Site id tid must be supplied'',
      ''Events must have a category'', ''Events must have an action''] \<and>
   validateParameters bare_event =
     (False, [errors_New ''Version v must equal 1'', errors_New ''Site id tid must be supplied'',
              errors_New ''Events must have a category'',
              errors_New ''Events must have an action''])"
proof -
  have "spec_violated bare_event =
     [''Version v must equal 1'', ''Site id tid must be supplied'',
      ''Events must have a category'', ''Events must have an action'']"
    by (simp add: spec_violated_def spec_rules_def bare_event_def Get_def)
  then show ?thesis
    using validateParameters_rules [of bare_event] by simp
qed

text \<open>
  Claim C2. The category rule and the action rule depend on the hit type: for every
  parameter set whose \<^verbatim>\<open>t\<close> is not \<^verbatim>\<open>event\<close>, neither "Events must have a category" nor
  "Events must have an action" is in the list of \<^verbatim>\<open>validateParameters\<close>; and on
  \<^verbatim>\<open>{v:"2", tid:"", t:"pageview"}\<close> the list is exactly the three messages for the
  version, the missing site id and the unsupported hit type.
\<close>

theorem category_action_only_for_events:
  "(Get vals ''t'' \<noteq> ''event'' \<longrightarrow>
      errors_New ''Events must have a category'' \<notin> set (snd (validateParameters vals)) \<and>
      errors_New ''Events must have an action'' \<notin> set (snd (validateParameters vals))) \<and>
   validateParameters scenario3 =
     (False, [errors_New ''Version v must equal 1'',
              errors_New ''Site id tid must be supplied'',
              errors_New ''Hit type 't' must be set, only type 'event' is currently supported''])"
  by (simp add: validateParameters_unfold Let_def scenario3_def Get_def)

theorem category_action_only_for_events_witness:
  "Get scenario3 ''t'' \<noteq> ''event'' \<and>
   errors_New ''Events must have a category'' \<notin> set (snd (validateParameters scenario3)) \<and>
   errors_New ''Events must have an action'' \<notin> set (snd (validateParameters scenario3)) \<and>
   length (snd (validateParameters scenario3)) = 3"
  using category_action_only_for_events [of scenario3]
  by (simp add: scenario3_def Get_def)

text \<open>
  Claim C3. Rendering a list of exactly one error gives the message of that error;
  rendering a list of more than one gives \<^verbatim>\<open>multiple errors:\<close> followed, for each error
  in order, by a newline and its message. For the list that \<^verbatim>\<open>validateParameters\<close>
  returns, whose messages contain no newline, the lines of the rendering are therefore
  the header and then one line for each message, in the order of evaluation.
\<close>

theorem multipleErrors_Error_rendering:
  "(length e = 1 \<longrightarrow> multipleErrors_Error e = Error (hd e)) \<and>
   (length e > 1 \<longrightarrow>
      multipleErrors_Error e =
        ''multiple errors:'' @ concat (map (\<lambda>err. CHR 0x0A # Error err) e)) \<and>
   (length (snd (validateParameters vals)) > 1 \<longrightarrow>
      lines_of (multipleErrors_Error (snd (validateParameters vals))) =
        ''multiple errors:'' # map Error (snd (validateParameters vals)))"
proof (intro conjI impI)
  assume "length e = 1"
  then show "multipleErrors_Error e = Error (hd e)"
    by (cases e) (simp_all add: multipleErrors_Error_def)
next
  assume "length e > 1"
  then show "multipleErrors_Error e =
      ''multiple errors:'' @ concat (map (\<lambda>err. CHR 0x0A # Error err) e)"
    by (simp add: multipleErrors_Error_def foldl_messages)
next
  let ?errs = "snd (validateParameters vals)"
  assume "length ?errs > 1"
  then have "multipleErrors_Error ?errs =
      ''multiple errors:'' @ concat (map (\<lambda>x. CHR 0x0A # x) (map Error ?errs))"
    by (simp add: multipleErrors_Error_def foldl_messages comp_def)
  moreover have clean: "\<forall>x \<in> set (map Error ?errs). CHR 0x0A \<notin> set x"
    using validateParameters_no_newline [of vals] by simp
  moreover have header: "CHR 0x0A \<notin> set ''multiple errors:''" by simp
  note lines_of_messages [OF header clean]
  ultimately show "lines_of (multipleErrors_Error ?errs) = ''multiple errors:'' # map Error ?errs"
    by simp
qed

theorem multipleErrors_Error_rendering_witness:
  "length (snd (validateParameters scenario2)) = 1 \<and>
   multipleErrors_Error (snd (validateParameters scenario2)) = ''Events must have a category'' \<and>
   length (snd (validateParameters scenario3)) > 1 \<and>
   lines_of (multipleErrors_Error (snd (validateParameters scenario3))) =
     [''multiple errors:'', ''Version v must equal 1'', ''Site id tid must be supplied'',
      ''Hit type 't' must be set, only type 'event' is currently supported'']"
  using multipleErrors_Error_rendering [of "snd (validateParameters scenario2)" scenario3]
  by (simp add: validateParameters_unfold Let_def scenario2_def scenario3_def Get_def)

text \<open>
  Claim C4. For every parameter set, the event of \<^verbatim>\<open>createEvent\<close> has \<^verbatim>\<open>Site\<close> equal to
  the parameter \<^verbatim>\<open>tid\<close>, \<^verbatim>\<open>Category\<close> to \<^verbatim>\<open>ec\<close>, \<^verbatim>\<open>Action\<close> to \<^verbatim>\<open>ea\<close> and \<^verbatim>\<open>Label\<close> to
  \<^verbatim>\<open>el\<close>, an empty \<^verbatim>\<open>ClientID\<close> and the \<^verbatim>\<open>Value\<close> zero; on the parameters of the first
  scenario it is the event with site \<^verbatim>\<open>site1\<close>, category \<^verbatim>\<open>nav\<close>, action \<^verbatim>\<open>click\<close>, an
  empty label and the value zero.
\<close>

theorem createEvent_fields:
  "Site (createEvent data) = Get data ''tid'' \<and>
   Category (createEvent data) = Get data ''ec'' \<and>
   Action (createEvent data) = Get data ''ea'' \<and>
   Label (createEvent data) = Get data ''el'' \<and>
   ClientID (createEvent data) = '''' \<and>
   Value (createEvent data) = 0 \<and>
   createEvent scenario1 =
     \<lparr>Site = ''site1'', ClientID = '''', Category = ''nav'', Action = ''click'',
      Label = '''', Value = 0\<rparr>"
  by (simp add: createEvent_def scenario1_def Get_def)

theorem createEvent_fields_witness:
  "createEvent repeated_keys =
     \<lparr>Site = ''site1'', ClientID = '''', Category = ''nav'', Action = ''click'',
      Label = ''top'', Value = 0\<rparr>"
  using createEvent_fields [of repeated_keys]
  by (simp add: createEvent_def repeated_keys_def Get_def)

text \<open>
  Claim C5. For every request whose parameters fail validation, the handler sets the
  status 400 and writes no body; the rendered validation error is the one entry of the
  log; no goroutine is started, so no event reaches \<^verbatim>\<open>record\<close> and \<^verbatim>\<open>LogIt\<close> is not
  called: the collector and its store are what they were, under every schedule.
\<close>

theorem CollectData_invalid:
  assumes "\<not> fst (validateParameters params)"
  shows "status (writer (CollectData params (new_request coll))) = Some 400 \<and>
         body (writer (CollectData params (new_request coll))) = [] \<and>
         log_output (CollectData params (new_request coll)) =
           [multipleErrors_Error (snd (validateParameters params))] \<and>
         goroutines (CollectData params (new_request coll)) = [] \<and>
         collector (CollectData params (new_request coll)) = coll \<and>
         run_schedule sch (CollectData params (new_request coll)) =
           CollectData params (new_request coll)"
proof -
  have eq: "CollectData params (new_request coll) =
      \<lparr>writer = \<lparr>status = Some 400, body = []\<rparr>,
       log_output = [multipleErrors_Error (snd (validateParameters params))],
       goroutines = [], collector = coll\<rparr>"
    using assms by (simp add: CollectData_invalid_eq new_request_def WriteHeader_def)
  then have "goroutines (CollectData params (new_request coll)) = []"
    by simp
  then have "run_schedule sch (CollectData params (new_request coll)) =
      CollectData params (new_request coll)"
    by (rule run_schedule_idle)
  with eq show ?thesis by simp
qed

theorem CollectData_invalid_witness:
  "\<not> fst (validateParameters scenario2) \<and>
   writer (CollectData scenario2 (new_request (NewCollector keeping_store))) =
     \<lparr>status = Some 400, body = []\<rparr> \<and>
   log_output (CollectData scenario2 (new_request (NewCollector keeping_store))) =
     [''Events must have a category''] \<and>
   ds_state (store (collector (run_schedule [0]
     (CollectData scenario2 (new_request (NewCollector keeping_store)))))) = []"
proof -
  have v: "validateParameters scenario2 = (False, [errors_New ''Events must have a category''])"
    by (simp add: validateParameters_unfold Let_def scenario2_def Get_def)
  then have inv: "\<not> fst (validateParameters scenario2)"
    by simp
  show ?thesis
    using inv CollectData_invalid [OF inv, of "NewCollector keeping_store" "[0]"] v
    by (simp add: multipleErrors_Error_def NewCollector_def keeping_store_def)
qed

text \<open>
  Claim C6 says of a storage error that it is logged. It is not: on the valid parameters
  of the first scenario, with a store whose \<^verbatim>\<open>LogIt\<close> returns an error, the handler starts
  one goroutine, the goroutine runs to its end, and the log is still empty.
\<close>

theorem storage_error_is_not_logged:
  "fst (validateParameters scenario1) \<and>
   snd (LogIt failing_store (createEvent scenario1)) = Some (errors_New ''store is down'') \<and>
   goroutines (CollectData scenario1 (new_request (NewCollector failing_store))) =
     [createEvent scenario1] \<and>
   goroutines (run_schedule [0]
     (CollectData scenario1 (new_request (NewCollector failing_store)))) = [] \<and>
   log_output (run_schedule [0]
     (CollectData scenario1 (new_request (NewCollector failing_store)))) = []"
proof -
  have v: "fst (validateParameters scenario1)"
    by (simp add: validateParameters_unfold Let_def scenario1_def Get_def)
  have "snd (LogIt failing_store (createEvent scenario1)) = Some (errors_New ''store is down'')"
    by (simp add: LogIt_def failing_store_def)
  with v show ?thesis
    by (simp add: CollectData_valid_eq new_request_def run_goroutine_def Collector_record_def
        split: prod.splits)
qed

text \<open>
  Claim C6, amended. For every request whose parameters pass validation, the handler
  sets the status 200 and writes no body, logs nothing and starts one goroutine, for
  \<^verbatim>\<open>record\<close> on the event built. The response is the same for every collector, whatever
  its \<^verbatim>\<open>LogIt\<close> returns, and under every schedule of the goroutine: a storage error is
  turned by \<^verbatim>\<open>record\<close> into the string \<^verbatim>\<open>boo!\<close>, which the \<^verbatim>\<open>go\<close> statement drops; it
  reaches neither the caller nor the log.
\<close>

theorem CollectData_valid:
  assumes "fst (validateParameters params)"
  shows "writer (CollectData params (new_request coll)) = \<lparr>status = Some 200, body = []\<rparr> \<and>
         log_output (CollectData params (new_request coll)) = [] \<and>
         goroutines (CollectData params (new_request coll)) = [createEvent params] \<and>
         writer (run_schedule sch (CollectData params (new_request coll))) =
           \<lparr>status = Some 200, body = []\<rparr> \<and>
         log_output (run_schedule sch (CollectData params (new_request coll))) = [] \<and>
         snd (Collector_record coll (createEvent params)) =
           (if snd (LogIt (store coll) (createEvent params)) = None then ''ok'' else ''boo!'')"
proof -
  have eq: "CollectData params (new_request coll) =
      \<lparr>writer = \<lparr>status = Some 200, body = []\<rparr>, log_output = [],
       goroutines = [createEvent params], collector = coll\<rparr>"
    using assms by (simp add: CollectData_valid_eq new_request_def WriteHeader_def)
  have "snd (Collector_record coll (createEvent params)) =
      (if snd (LogIt (store coll) (createEvent params)) = None then ''ok'' else ''boo!'')"
    by (simp add: Collector_record_def split: prod.splits)
  with eq show ?thesis
    by (simp add: run_schedule_keeps)
qed

theorem CollectData_valid_witness:
  "fst (validateParameters scenario1) \<and>
   writer (run_schedule [0] (CollectData scenario1 (new_request (NewCollector failing_store)))) =
     \<lparr>status = Some 200, body = []\<rparr> \<and>
   writer (run_schedule [0] (CollectData scenario1 (new_request (NewCollector keeping_store)))) =
     \<lparr>status = Some 200, body = []\<rparr> \<and>
   snd (Collector_record (NewCollector failing_store) (createEvent scenario1)) = ''boo!'' \<and>
   snd (Collector_record (NewCollector keeping_store) (createEvent scenario1)) = ''ok''"
proof -
  have v: "fst (validateParameters scenario1)"
    by (simp add: validateParameters_unfold Let_def scenario1_def Get_def)
  show ?thesis
    using v CollectData_valid [OF v, of "NewCollector failing_store" "[0]"]
      CollectData_valid [OF v, of "NewCollector keeping_store" "[0]"]
    by (simp add: NewCollector_def LogIt_def failing_store_def keeping_store_def)
qed

text \<open>
  Claim C7. \<^verbatim>\<open>validateParameters\<close> and \<^verbatim>\<open>createEvent\<close> are total and deterministic.
  Total: on every parameter set and from every heap, the run of either function ends
  with a result and never with a panic, and the result is the one the functions
  \<^verbatim>\<open>validateParameters\<close> and \<^verbatim>\<open>createEvent\<close> above give. Deterministic: two runs on equal
  parameter sets, from any two heaps, give the same flag, the same messages in the same
  order and the same event (the pointers to the errors may differ, what they point to
  does not). A key that is absent is read exactly as a key whose value is the empty
  string, or whose list of values is empty.
\<close>

theorem validateParameters_createEvent_total_deterministic:
  "ValidationResult_of (validateParameters_run vals h) =
     Inr (fst (validateParameters vals), map Error (snd (validateParameters vals))) \<and>
   createEvent_run vals h = Inr (createEvent vals, h) \<and>
   (vals = vals' \<longrightarrow>
      ValidationResult_of (validateParameters_run vals h) =
        ValidationResult_of (validateParameters_run vals' h') \<and>
      Event_of (createEvent_run vals h) = Event_of (createEvent_run vals' h')) \<and>
   ValidationResult_of (validateParameters_run (vals(k := None)) h) =
     ValidationResult_of (validateParameters_run (vals(k \<mapsto> [''''])) h) \<and>
   createEvent_run (vals(k := None)) h = createEvent_run (vals(k \<mapsto> [''''])) h \<and>
   validateParameters (vals(k := None)) = validateParameters (vals(k \<mapsto> [''''])) \<and>
   validateParameters (vals(k := None)) = validateParameters (vals(k \<mapsto> [])) \<and>
   createEvent (vals(k := None)) = createEvent (vals(k \<mapsto> [''''])) \<and>
   createEvent (vals(k := None)) = createEvent (vals(k \<mapsto> []))"
proof -
  have v1: "validateParameters (vals(k := None)) = validateParameters (vals(k \<mapsto> ['''']))"
    by (intro validateParameters_Get_cong Get_update_absent)
  have v2: "validateParameters (vals(k := None)) = validateParameters (vals(k \<mapsto> []))"
    by (intro validateParameters_Get_cong Get_update_no_values)
  have e1: "createEvent (vals(k := None)) = createEvent (vals(k \<mapsto> ['''']))"
    by (intro createEvent_Get_cong Get_update_absent)
  have e2: "createEvent (vals(k := None)) = createEvent (vals(k \<mapsto> []))"
    by (intro createEvent_Get_cong Get_update_no_values)
  have "ValidationResult_of (validateParameters_run (vals(k := None)) h) =
      ValidationResult_of (validateParameters_run (vals(k \<mapsto> [''''])) h)"
    by (simp only: validateParameters_run_observed v1)
  moreover have "createEvent_run (vals(k := None)) h = createEvent_run (vals(k \<mapsto> [''''])) h"
    by (simp only: createEvent_run_eq e1)
  moreover have "vals = vals' \<longrightarrow>
      ValidationResult_of (validateParameters_run vals h) =
        ValidationResult_of (validateParameters_run vals' h') \<and>
      Event_of (createEvent_run vals h) = Event_of (createEvent_run vals' h')"
    by (simp add: validateParameters_run_observed createEvent_run_eq Event_of_def)
  ultimately show ?thesis
    using v1 v2 e1 e2 validateParameters_run_observed [of vals h] createEvent_run_eq [of vals h]
    by simp
qed

theorem validateParameters_createEvent_total_deterministic_witness:
  "ValidationResult_of (validateParameters_run empty_lists empty_heap) =
     Inr (False, [''Version v must equal 1'', ''Site id tid must be supplied'',
                  ''Events must have a category'', ''Events must have an action'']) \<and>
   ValidationResult_of (validateParameters_run empty_lists used_heap) =
     Inr (False, [''Version v must equal 1'', ''Site id tid must be supplied'',
                  ''Events must have a category'', ''Events must have an action'']) \<and>
   (case validateParameters_run empty_lists empty_heap of
      Inl p \<Rightarrow> [] | Inr ((ok, errs), h) \<Rightarrow> errs) = [0, 1, 2, 3] \<and>
   (case validateParameters_run empty_lists used_heap of
      Inl p \<Rightarrow> [] | Inr ((ok, errs), h) \<Rightarrow> errs) = [7, 8, 9, 10] \<and>
   createEvent_run empty_lists empty_heap =
     Inr (\<lparr>Site = '''', ClientID = '''', Category = '''', Action = '''', Label = '''',
           Value = 0\<rparr>, empty_heap) \<and>
   validateParameters (empty_lists(''ec'' := None)) =
     validateParameters (empty_lists(''ec'' \<mapsto> ['''']))"
proof -
  note total_det = validateParameters_createEvent_total_deterministic
    [of empty_lists empty_heap empty_lists used_heap "''ec''"]
  have vp: "validateParameters empty_lists =
      (False, [errors_New ''Version v must equal 1'', errors_New ''Site id tid must be supplied'',
               errors_New ''Events must have a category'',
               errors_New ''Events must have an action''])"
    by (simp add: validateParameters_unfold Let_def empty_lists_def Get_def)
  have ev: "createEvent empty_lists =
      \<lparr>Site = '''', ClientID = '''', Category = '''', Action = '''', Label = '''', Value = 0\<rparr>"
    by (simp add: createEvent_def empty_lists_def Get_def)
  have r0: "ValidationResult_of (validateParameters_run empty_lists empty_heap) =
      Inr (False, [''Version v must equal 1'', ''Site id tid must be supplied'',
                   ''Events must have a category'', ''Events must have an action''])"
    using total_det [THEN conjunct1] vp by simp
  have "ValidationResult_of (validateParameters_run empty_lists empty_heap) =
      ValidationResult_of (validateParameters_run empty_lists used_heap)"
    using total_det [THEN conjunct2, THEN conjunct2, THEN conjunct1] by simp
  with r0 have r7: "ValidationResult_of (validateParameters_run empty_lists used_heap) =
      Inr (False, [''Version v must equal 1'', ''Site id tid must be supplied'',
                   ''Events must have a category'', ''Events must have an action''])"
    by simp
  have p0: "(case validateParameters_run empty_lists empty_heap of
      Inl p \<Rightarrow> [] | Inr ((ok, errs), h) \<Rightarrow> errs) = [0, 1, 2, 3]"
    by (simp add: validateParameters_run_def Get_run_unit bind_unit_run and_run_def
        append_error_eq bind_run_def unit_run_def empty_lists_def empty_heap_def Get_def
        numeral_2_eq_2 numeral_3_eq_3)
  have p7: "(case validateParameters_run empty_lists used_heap of
      Inl p \<Rightarrow> [] | Inr ((ok, errs), h) \<Rightarrow> errs) = [7, 8, 9, 10]"
    by (simp add: validateParameters_run_def Get_run_unit bind_unit_run and_run_def
        append_error_eq bind_run_def unit_run_def empty_lists_def used_heap_def Get_def)
  have e0: "createEvent_run empty_lists empty_heap =
      Inr (\<lparr>Site = '''', ClientID = '''', Category = '''', Action = '''', Label = '''',
            Value = 0\<rparr>, empty_heap)"
    using total_det [THEN conjunct2, THEN conjunct1] ev by simp
  have absent: "validateParameters (empty_lists(''ec'' := None)) =
      validateParameters (empty_lists(''ec'' \<mapsto> ['''']))"
    using total_det
      [THEN conjunct2, THEN conjunct2, THEN conjunct2, THEN conjunct2, THEN conjunct2,
       THEN conjunct1] .
  show ?thesis
    by (intro conjI r0 r7 p0 p7 e0 absent)
qed

text \<open>
  Claim C8. Where a key carries several values, \<^verbatim>\<open>validateParameters\<close> and
  \<^verbatim>\<open>createEvent\<close> read the first only: replacing, for every key, its list of values by
  the singleton of the first element changes neither the result of validation nor the
  event built.
\<close>

theorem only_first_value_is_read:
  "validateParameters (first_values vals) = validateParameters vals \<and>
   createEvent (first_values vals) = createEvent vals"
  by (intro conjI validateParameters_Get_cong createEvent_Get_cong Get_first_values)

theorem only_first_value_is_read_witness:
  "first_values repeated_keys ''ea'' = Some [''click''] \<and>
   repeated_keys ''ea'' = Some [''click'', ''hover''] \<and>
   validateParameters repeated_keys = (True, []) \<and>
   validateParameters (first_values repeated_keys) = (True, []) \<and>
   Action (createEvent (first_values repeated_keys)) = ''click'' \<and>
   Action (createEvent repeated_keys) = ''click''"
proof -
  have "validateParameters repeated_keys = (True, [])"
    by (simp add: validateParameters_unfold Let_def repeated_keys_def Get_def)
  moreover have "Action (createEvent repeated_keys) = ''click''"
    by (simp add: createEvent_def repeated_keys_def Get_def)
  moreover have "first_values repeated_keys ''ea'' = Some [''click'']"
    by (simp add: first_values_def repeated_keys_def)
  moreover have "repeated_keys ''ea'' = Some [''click'', ''hover'']"
    by (simp add: repeated_keys_def)
  ultimately show ?thesis
    using only_first_value_is_read [of repeated_keys] by simp
qed

text \<open>
  Claim C9. The result of \<^verbatim>\<open>validateParameters\<close> depends on the keys \<^verbatim>\<open>v\<close>, \<^verbatim>\<open>tid\<close>,
  \<^verbatim>\<open>t\<close>, \<^verbatim>\<open>ec\<close> and \<^verbatim>\<open>ea\<close> only: two parameter sets that agree on these five keys have
  the same result, whatever other keys either of them holds.
\<close>

theorem validateParameters_reads_five_keys:
  assumes "\<forall>k \<in> set [''v'', ''tid'', ''t'', ''ec'', ''ea'']. vals k = vals' k"
  shows "validateParameters vals = validateParameters vals'"
  using assms by (intro validateParameters_Get_cong Get_cong) simp_all

theorem validateParameters_reads_five_keys_witness:
  "scenario1 ''v'' = scenario1_extra ''v'' \<and> scenario1 ''tid'' = scenario1_extra ''tid'' \<and>
   scenario1 ''t'' = scenario1_extra ''t'' \<and> scenario1 ''ec'' = scenario1_extra ''ec'' \<and>
   scenario1 ''ea'' = scenario1_extra ''ea'' \<and>
   scenario1 ''el'' \<noteq> scenario1_extra ''el'' \<and>
   validateParameters scenario1 = (True, []) \<and>
   validateParameters scenario1_extra = (True, [])"
proof -
  have agree: "\<forall>k \<in> set [''v'', ''tid'', ''t'', ''ec'', ''ea'']. scenario1 k = scenario1_extra k"
    by (simp add: scenario1_def scenario1_extra_def)
  have "validateParameters scenario1 = (True, [])"
    by (simp add: validateParameters_unfold Let_def scenario1_def Get_def)
  moreover have "scenario1 ''el'' \<noteq> scenario1_extra ''el''"
    by (simp add: scenario1_def scenario1_extra_def)
  ultimately show ?thesis
    using agree validateParameters_reads_five_keys [OF agree] by simp
qed

text \<open>
  Claim C10. For every parameter set, the messages in the list of
  \<^verbatim>\<open>validateParameters\<close> are pairwise different and at most four, and the message of the
  hit-type rule is never in one list with the message of the category rule or of the
  action rule.
\<close>

theorem validateParameters_messages_invariant:
  "distinct (map Error (snd (validateParameters vals))) \<and>
   length (snd (validateParameters vals)) \<le> 4 \<and>
   \<not> (errors_New ''Hit type 't' must be set, only type 'event' is currently supported''
          \<in> set (snd (validateParameters vals)) \<and>
        (errors_New ''Events must have a category'' \<in> set (snd (validateParameters vals)) \<or>
         errors_New ''Events must have an action'' \<in> set (snd (validateParameters vals))))"
  by (simp add: validateParameters_unfold Let_def)

theorem validateParameters_messages_invariant_witness:
  "length (snd (validateParameters bare_event)) = 4 \<and>
   distinct (map Error (snd (validateParameters bare_event))) \<and>
   errors_New ''Events must have a category'' \<in> set (snd (validateParameters bare_event)) \<and>
   errors_New ''Hit type 't' must be set, only type 'event' is currently supported''
     \<notin> set (snd (validateParameters bare_event))"
proof -
  have "validateParameters bare_event =
     (False, [errors_New ''Version v must equal 1'', errors_New ''Site id tid must be supplied'',
              errors_New ''Events must have a category'',
              errors_New ''Events must have an action''])"
    by (simp add: validateParameters_unfold Let_def bare_event_def Get_def)
  then show ?thesis
    using validateParameters_messages_invariant [of bare_event] by simp
qed

end
